theory Spec2Isabelle
  imports Main "HOL-Library.Sublist" "HOL-Library.Multiset"
begin

section \<open>Snippet Arsenal: the snippet store and the editor session\<close>

text \<open>
  The program is one Python module, \<^verbatim>\<open>main.py\<close>: six functions over one SQLite table
  (\<^verbatim>\<open>init_db\<close>, \<^verbatim>\<open>db_search\<close>, \<^verbatim>\<open>db_get\<close>, \<^verbatim>\<open>db_insert\<close>, \<^verbatim>\<open>db_update\<close>,
  \<^verbatim>\<open>db_delete\<close>) and a Tkinter window whose callbacks (\<^verbatim>\<open>refresh_results\<close>,
  \<^verbatim>\<open>on_select\<close>, \<^verbatim>\<open>new_snippet\<close>, \<^verbatim>\<open>save_snippet\<close>, \<^verbatim>\<open>delete_snippet\<close>) hold the
  editing state.

  Conventions of the embedding.
  \<^item> Text is a \<open>string\<close>; every \<open>char\<close> stands for one character with code point below 256.
    SQLite holds text in UTF-8, where a character below 128 is one byte and the others here
    are two.
  \<^item> The database file is a value of type \<open>database\<close>, passed to and returned by every
    function that opens a connection. Opening the file always succeeds.
  \<^item> \<^verbatim>\<open>CURRENT_TIMESTAMP\<close> is the parameter \<open>now\<close> of the two writing functions: the
    reading of the wall clock, in seconds. The text SQLite stores
    (\<^verbatim>\<open>YYYY-MM-DD HH:MM:SS\<close>) orders as that number does.
  \<^item> A callback returns an \<open>outcome\<close> next to the new state: it returned, it showed a message
    box, or it raised.
\<close>

subsection \<open>Python's string methods\<close>

text \<open>
  \<^verbatim>\<open>str.isspace\<close> on the characters below 256: TAB, LF, VT, FF, CR, the four separators
  FS, GS, RS, US, the space, NEL and the no-break space.
\<close>

definition is_space :: "char \<Rightarrow> bool" where
  "is_space c = (of_char c \<in> set [9, 10, 11, 12, 13, 28, 29, 30, 31, 32, 133, 160 :: nat])"

definition lstrip :: "string \<Rightarrow> string" where
  "lstrip s = dropWhile is_space s"

definition rstrip :: "string \<Rightarrow> string" where
  "rstrip s = rev (dropWhile is_space (rev s))"

text \<open>\<^verbatim>\<open>s.strip()\<close>\<close>

definition strip :: "string \<Rightarrow> string" where
  "strip s = rstrip (lstrip s)"

text \<open>
  \<^verbatim>\<open>s.split(sep)\<close> for a separator of one character: the result is never empty, and
  \<^verbatim>\<open>"".split(",")\<close> is \<^verbatim>\<open>[""]\<close>.
\<close>

fun split_on :: "char \<Rightarrow> string \<Rightarrow> string list" where
  "split_on sep [] = [[]]"
| "split_on sep (x # xs) =
     (if x = sep then [] # split_on sep xs
      else (case split_on sep xs of
              [] \<Rightarrow> [[x]]
            | y # ys \<Rightarrow> (x # y) # ys))"

text \<open>\<^verbatim>\<open>sep.join(parts)\<close>\<close>

fun join :: "string \<Rightarrow> string list \<Rightarrow> string" where
  "join sep [] = []"
| "join sep [x] = x"
| "join sep (x # y # ys) = x @ sep @ join sep (y # ys)"

text \<open>
  Line 328 of \<^verbatim>\<open>save_snippet\<close>:
  \<^verbatim>\<open>",".join(t.strip() for t in tags.split(",") if t.strip())\<close>
\<close>

definition normalize_tags :: "string \<Rightarrow> string" where
  "normalize_tags tags =
     join '','' (map strip (filter (\<lambda>t. strip t \<noteq> []) (split_on (CHR '','') tags)))"

subsection \<open>SQLite's LIKE\<close>

text \<open>
  SQLite folds the 26 upper case characters of ASCII (codes 65 to 90) to lower case before
  it compares; every other character is compared as it is. \<open>ascii_lower c\<close> is the code of
  the folded character.
\<close>

definition ascii_lower :: "char \<Rightarrow> nat" where
  "ascii_lower c = (let n = of_char c in if 65 \<le> n \<and> n \<le> 90 then n + 32 else n)"

text \<open>
  The comparison of \<^verbatim>\<open>LIKE\<close> with no ESCAPE clause, on a pattern and a text that have been
  read to their end: a percent sign in the pattern matches any run of characters, also the
  empty one; an underscore matches any one character; any other character matches itself up
  to the case of ASCII letters.
\<close>

fun like_chars :: "string \<Rightarrow> string \<Rightarrow> bool" where
  "like_chars [] s = (s = [])"
| "like_chars (p # ps) [] = (p = CHR ''%'' \<and> like_chars ps [])"
| "like_chars (p # ps) (c # cs) =
     (if p = CHR ''%'' then like_chars ps (c # cs) \<or> like_chars (p # ps) cs
      else (p = CHR ''_'' \<or> ascii_lower p = ascii_lower c) \<and> like_chars ps cs)"

text \<open>
  SQLite reads the pattern and the text as C strings: each ends at its first NUL character,
  and what follows the NUL takes no part in the comparison.
\<close>

definition until_nul :: "string \<Rightarrow> string" where
  "until_nul s = takeWhile (\<lambda>c. c \<noteq> CHR 0x00) s"

text \<open>\<open>like p s\<close> is the value of the SQL expression \<^verbatim>\<open>s LIKE p\<close> when it has one.\<close>

definition like :: "string \<Rightarrow> string \<Rightarrow> bool" where
  "like p s = like_chars (until_nul p) (until_nul s)"

text \<open>
  It has none when the pattern is longer than 50000 bytes, all of its bytes counted, also
  those after a NUL: the function then fails with \<^verbatim>\<open>LIKE or GLOB pattern too complex\<close>,
  and the module raises \<^verbatim>\<open>OperationalError\<close>.
\<close>

definition utf8_length :: "string \<Rightarrow> nat" where
  "utf8_length s = sum_list (map (\<lambda>c. if (of_char c :: nat) < 128 then 1 else 2) s)"

definition like_pattern_limit :: nat where
  "like_pattern_limit = 50000"

text \<open>\<^verbatim>\<open>IFNULL(x, y)\<close>\<close>

fun ifnull :: "'a option \<Rightarrow> 'a \<Rightarrow> 'a" where
  "ifnull None y = y"
| "ifnull (Some x) y = x"

subsection \<open>The table \<^verbatim>\<open>snippets\<close>\<close>

type_synonym timestamp = nat

text \<open>
  One row of the table created by \<^verbatim>\<open>init_db\<close>. The column \<^verbatim>\<open>id\<close> is \<open>row_id\<close> here.
  \<^verbatim>\<open>notes\<close> is the one text column without \<^verbatim>\<open>NOT NULL\<close>.
\<close>

record snippet =
  row_id :: int
  title :: string
  language :: string
  tags :: string
  status :: string
  code :: string
  "notes" :: "string option"
  created_at :: timestamp
  updated_at :: timestamp

text \<open>
  The database file: the rows of the table in the order of insertion, and the entry that
  \<^verbatim>\<open>AUTOINCREMENT\<close> keeps for the table in \<^verbatim>\<open>sqlite_sequence\<close> (the largest row id the
  table ever held; 0 when there was none).
\<close>

record database =
  snippets :: "snippet list"
  sqlite_sequence :: int

definition empty_db :: database where
  "empty_db = \<lparr>snippets = [], sqlite_sequence = 0\<rparr>"

datatype py_error = TypeError | OperationalError

text \<open>The largest row id of SQLite, \<open>2 ^ 63 - 1\<close>.\<close>

definition max_rowid :: int where
  "max_rowid = 9223372036854775807"

subsection \<open>Database functions\<close>

text \<open>The \<^verbatim>\<open>WHERE\<close> clause of \<^verbatim>\<open>db_search\<close>, one \<^verbatim>\<open>LIKE\<close> for each of the five columns.\<close>

definition search_where :: "string \<Rightarrow> snippet \<Rightarrow> bool" where
  "search_where q r =
     (like q (title r) \<or> like q (language r) \<or> like q (tags r) \<or> like q (code r)
      \<or> like q (ifnull (notes r) []))"

text \<open>The five texts that the clause looks at, \<^verbatim>\<open>IFNULL(notes, '')\<close> the last.\<close>

definition searched_columns :: "snippet \<Rightarrow> string list" where
  "searched_columns r = [title r, language r, tags r, code r, ifnull (notes r) []]"

text \<open>
  \<^verbatim>\<open>ORDER BY updated_at DESC\<close>. SQL leaves the order of rows with equal keys open; the
  model keeps them in the order of the table.
\<close>

definition order_by_updated_desc :: "snippet list \<Rightarrow> snippet list" where
  "order_by_updated_desc rs = sort_key (\<lambda>r. - int (updated_at r)) rs"

text \<open>The query of \<^verbatim>\<open>db_search\<close> up to \<^verbatim>\<open>ORDER BY\<close>, on whole rows.\<close>

definition search_select :: "database \<Rightarrow> string \<Rightarrow> snippet list" where
  "search_select d query =
     (let q = ''%'' @ strip query @ ''%''
      in order_by_updated_desc (filter (search_where q) (snippets d)))"

text \<open>\<^verbatim>\<open>LIMIT 200\<close>\<close>

definition search_rows :: "database \<Rightarrow> string \<Rightarrow> snippet list" where
  "search_rows d query = take 200 (search_select d query)"

type_synonym summary_row = "int \<times> string \<times> string \<times> string \<times> string"

text \<open>The five columns that \<^verbatim>\<open>db_search\<close> selects.\<close>

definition summary :: "snippet \<Rightarrow> summary_row" where
  "summary r = (row_id r, title r, language r, tags r, status r)"

text \<open>
  \<^verbatim>\<open>db_search\<close>. The \<^verbatim>\<open>WHERE\<close> clause is computed where there is a row to test, the
  title first: on a table that is not empty a pattern over the limit makes \<^verbatim>\<open>execute\<close>
  raise, on an empty table the result is the empty list for every pattern.
\<close>

definition db_search :: "database \<Rightarrow> string \<Rightarrow> py_error + summary_row list" where
  "db_search d query =
     (let q = ''%'' @ strip query @ ''%''
      in if snippets d \<noteq> [] \<and> like_pattern_limit < utf8_length q then Inl OperationalError
         else Inr (map summary (search_rows d query)))"

type_synonym full_row = "int \<times> string \<times> string \<times> string \<times> string \<times> string \<times> string"

text \<open>The row that \<^verbatim>\<open>WHERE id = ?\<close> finds, if any.\<close>

definition row_with_id :: "database \<Rightarrow> int \<Rightarrow> snippet option" where
  "row_with_id d i = find (\<lambda>r. row_id r = i) (snippets d)"

text \<open>\<^verbatim>\<open>db_get\<close>: \<^verbatim>\<open>fetchone()\<close> gives \<^verbatim>\<open>None\<close> when no row has the id.\<close>

definition db_get :: "database \<Rightarrow> int \<Rightarrow> full_row option" where
  "db_get d i =
     (case row_with_id d i of
        None \<Rightarrow> None
      | Some r \<Rightarrow>
          Some (row_id r, title r, language r, tags r, status r, code r, ifnull (notes r) []))"

text \<open>
  \<^verbatim>\<open>db_insert\<close>. The row id is one more than the largest the table holds or ever held;
  when that was the largest row id there is, SQLite refuses the row (\<^verbatim>\<open>SQLITE_FULL\<close>) and
  the module raises \<^verbatim>\<open>OperationalError\<close>. Both timestamps take their default.
\<close>

definition db_insert ::
  "timestamp \<Rightarrow> database \<Rightarrow> string \<Rightarrow> string \<Rightarrow> string \<Rightarrow> string \<Rightarrow> string \<Rightarrow> string
     \<Rightarrow> py_error + (int \<times> database)" where
  "db_insert now d title' language' tags' status' code' notes' =
     (let largest = fold max (map row_id (snippets d)) (sqlite_sequence d)
      in if max_rowid \<le> largest then Inl OperationalError
         else
           let lastrowid = largest + 1;
               r = \<lparr>row_id = lastrowid, title = title', language = language', tags = tags',
                    status = status', code = code', notes = Some notes',
                    created_at = now, updated_at = now\<rparr>
           in Inr (lastrowid, \<lparr>snippets = snippets d @ [r], sqlite_sequence = lastrowid\<rparr>))"

text \<open>The \<^verbatim>\<open>SET\<close> clause of \<^verbatim>\<open>db_update\<close>, on one row.\<close>

definition set_columns ::
  "timestamp \<Rightarrow> string \<Rightarrow> string \<Rightarrow> string \<Rightarrow> string \<Rightarrow> string \<Rightarrow> string \<Rightarrow> snippet \<Rightarrow> snippet"
  where
  "set_columns now title' language' tags' status' code' notes' r =
     r\<lparr>title := title', language := language', tags := tags', status := status',
       code := code', notes := Some notes', updated_at := now\<rparr>"

definition db_update ::
  "timestamp \<Rightarrow> database \<Rightarrow> int \<Rightarrow> string \<Rightarrow> string \<Rightarrow> string \<Rightarrow> string \<Rightarrow> string \<Rightarrow> string
     \<Rightarrow> database" where
  "db_update now d snippet_id title' language' tags' status' code' notes' =
     d\<lparr>snippets :=
         map (\<lambda>r. if row_id r = snippet_id
                  then set_columns now title' language' tags' status' code' notes' r
                  else r)
           (snippets d)\<rparr>"

definition db_delete :: "database \<Rightarrow> int \<Rightarrow> database" where
  "db_delete d snippet_id = d\<lparr>snippets := filter (\<lambda>r. row_id r \<noteq> snippet_id) (snippets d)\<rparr>"

subsection \<open>The window\<close>

text \<open>
  The attributes of \<^verbatim>\<open>SnippetArsenalApp\<close> that the callbacks read and write. \<open>results\<close> is
  the rows of the result list; \<open>code_text\<close> and \<open>notes_text\<close> are what the two text widgets
  hold before the newline that Tk keeps at their end.
\<close>

record app =
  selected_id :: "int option"
  search_var :: string
  results :: "summary_row list"
  title_var :: string
  lang_var :: string
  status_var :: string
  tags_var :: string
  code_text :: string
  notes_text :: string

datatype outcome =
    Returned
  | ShowError string string
  | ShowInfo string string
  | Raised py_error

text \<open>\<^verbatim>\<open>widget.get("1.0", "end")\<close>: the text and the final newline.\<close>

definition text_get :: "string \<Rightarrow> string" where
  "text_get content = content @ [CHR 0x0A]"

text \<open>
  \<^verbatim>\<open>refresh_results\<close> empties the result list before it searches, so an exception of
  \<^verbatim>\<open>db_search\<close> leaves the list empty.
\<close>

definition refresh_results :: "app \<Rightarrow> database \<Rightarrow> outcome \<times> app" where
  "refresh_results a d =
     (case db_search d (search_var a) of
        Inl e \<Rightarrow> (Raised e, a\<lparr>results := []\<rparr>)
      | Inr rows \<Rightarrow> (Returned, a\<lparr>results := rows\<rparr>))"

text \<open>
  \<^verbatim>\<open>on_select\<close>. \<open>sel\<close> is the selection of the result list, each selected item given by
  the id in its first column. Subscripting the \<^verbatim>\<open>None\<close> that \<^verbatim>\<open>db_get\<close> returns for an
  id without a row raises \<^verbatim>\<open>TypeError\<close> at the first assignment, before any attribute
  changes.
\<close>

definition on_select :: "app \<times> database \<Rightarrow> int list \<Rightarrow> outcome \<times> app" where
  "on_select w sel =
     (case w of (a, d) \<Rightarrow>
        (case sel of
           [] \<Rightarrow> (Returned, a)
         | snippet_id # _ \<Rightarrow>
             (case db_get d snippet_id of
                None \<Rightarrow> (Raised TypeError, a)
              | Some (r0, r1, r2, r3, r4, r5, r6) \<Rightarrow>
                  (Returned,
                   a\<lparr>selected_id := Some r0, title_var := r1, lang_var := r2, tags_var := r3,
                     status_var := r4, code_text := r5, notes_text := r6\<rparr>))))"

definition new_snippet :: "app \<Rightarrow> app" where
  "new_snippet a =
     a\<lparr>selected_id := None, title_var := [], lang_var := ''py'', tags_var := [],
       status_var := ''draft'', code_text := [], notes_text := []\<rparr>"

definition required_message :: string where
  "required_message = ''Title, language, tags, and code are required.''"

text \<open>
  \<^verbatim>\<open>save_snippet\<close>. An exception of \<^verbatim>\<open>db_insert\<close> leaves the callback before
  \<open>selected_id\<close> is assigned. An exception of \<^verbatim>\<open>refresh_results\<close> leaves it after the
  store was written and before the box \<^verbatim>\<open>Snippet saved.\<close> is shown.
\<close>

text \<open>
  What follows a call of \<^verbatim>\<open>refresh_results\<close> at the end of a callback: the rest of the
  callback when the call returned, its exception when it raised.
\<close>

definition after_refresh :: "outcome \<Rightarrow> outcome \<times> app \<Rightarrow> database \<Rightarrow> outcome \<times> app \<times> database"
  where
  "after_refresh rest ra d =
     (case ra of (out, a) \<Rightarrow> if out = Returned then (rest, a, d) else (out, a, d))"

definition save_snippet :: "timestamp \<Rightarrow> app \<times> database \<Rightarrow> outcome \<times> app \<times> database" where
  "save_snippet now w =
     (case w of (a, d) \<Rightarrow>
        let title' = strip (title_var a);
            language' = strip (lang_var a);
            tags' = strip (tags_var a);
            status' = strip (status_var a);
            code' = strip (text_get (code_text a));
            notes' = strip (text_get (notes_text a))
        in if title' = [] \<or> language' = [] \<or> tags' = [] \<or> code' = []
           then (ShowError ''Error'' required_message, a, d)
           else
             let tags'' = normalize_tags tags'
             in (case selected_id a of
                   None \<Rightarrow>
                     (case db_insert now d title' language' tags'' status' code' notes' of
                        Inl e \<Rightarrow> (Raised e, a, d)
                      | Inr (new_id, d') \<Rightarrow>
                          after_refresh (ShowInfo ''Saved'' ''Snippet saved.'')
                            (refresh_results (a\<lparr>selected_id := Some new_id\<rparr>) d') d')
                 | Some snippet_id \<Rightarrow>
                     let d' = db_update now d snippet_id title' language' tags'' status' code' notes'
                     in after_refresh (ShowInfo ''Saved'' ''Snippet saved.'')
                          (refresh_results a d') d'))"

text \<open>\<^verbatim>\<open>delete_snippet\<close>; \<open>confirmed\<close> is the answer to the question box.\<close>

definition delete_snippet :: "bool \<Rightarrow> app \<times> database \<Rightarrow> outcome \<times> app \<times> database" where
  "delete_snippet confirmed w =
     (case w of (a, d) \<Rightarrow>
        (case selected_id a of
           None \<Rightarrow> (Returned, a, d)
         | Some snippet_id \<Rightarrow>
             if \<not> confirmed then (Returned, a, d)
             else
               let d' = db_delete d snippet_id
               in after_refresh Returned (refresh_results (new_snippet a) d') d'))"

subsection \<open>A store and a window to compute on\<close>

definition bin_search_row :: snippet where
  "bin_search_row =
     \<lparr>row_id = 1, title = ''Bin Search'', language = ''py'', tags = ''algo,search'',
      status = ''draft'', code = ''def f(): pass'', notes = Some [],
      created_at = 10, updated_at = 10\<rparr>"

definition hello_row :: snippet where
  "hello_row =
     \<lparr>row_id = 2, title = ''Hello'', language = ''c'', tags = ''io'',
      status = ''prod'', code = ''puts(1);'', notes = None,
      created_at = 20, updated_at = 30\<rparr>"

definition two_db :: database where
  "two_db = \<lparr>snippets = [bin_search_row, hello_row], sqlite_sequence = 2\<rparr>"

text \<open>The empty store after \<^verbatim>\<open>db_insert("T", "py", "a, b , c", "draft", "x = 1", "")\<close> at time 40.\<close>

definition raw_tags_db :: database where
  "raw_tags_db =
     \<lparr>snippets =
        [\<lparr>row_id = 1, title = ''T'', language = ''py'', tags = ''a, b , c'',
          status = ''draft'', code = ''x = 1'', notes = Some [],
          created_at = 40, updated_at = 40\<rparr>],
      sqlite_sequence = 1\<rparr>"

definition blank_app :: app where
  "blank_app =
     \<lparr>selected_id = None, search_var = [], results = [], title_var = [], lang_var = ''py'',
      status_var = ''draft'', tags_var = [], code_text = [], notes_text = []\<rparr>"

definition draft_app :: app where
  "draft_app =
     blank_app\<lparr>title_var := ''T'', tags_var := ''a, b , c'', code_text := ''x = 1''\<rparr>"

text \<open>The store and the window after saving \<open>draft_app\<close> on \<open>two_db\<close> at time 40.\<close>

definition three_db :: database where
  "three_db =
     \<lparr>snippets =
        [bin_search_row, hello_row,
         \<lparr>row_id = 3, title = ''T'', language = ''py'', tags = ''a,b,c'',
          status = ''draft'', code = ''x = 1'', notes = Some [],
          created_at = 40, updated_at = 40\<rparr>],
      sqlite_sequence = 3\<rparr>"

definition saved_app :: app where
  "saved_app =
     draft_app\<lparr>selected_id := Some 3,
       results := [(3, ''T'', ''py'', ''a,b,c'', ''draft''), summary hello_row,
                   summary bin_search_row]\<rparr>"

text \<open>The same save when row 1 is the one being edited.\<close>

definition edited_db :: database where
  "edited_db =
     \<lparr>snippets =
        [\<lparr>row_id = 1, title = ''T'', language = ''py'', tags = ''a,b,c'',
          status = ''draft'', code = ''x = 1'', notes = Some [],
          created_at = 10, updated_at = 40\<rparr>,
         hello_row],
      sqlite_sequence = 2\<rparr>"

definition edited_app :: app where
  "edited_app =
     draft_app\<lparr>selected_id := Some 1,
       results := [(1, ''T'', ''py'', ''a,b,c'', ''draft''), summary hello_row]\<rparr>"

subsection \<open>Case as Python compares it\<close>









text \<open>A store whose one row carries a time stamp later than the clock of the next update.\<close>

definition stamped_db :: database where
  "stamped_db = \<lparr>snippets = [bin_search_row\<lparr>updated_at := 50\<rparr>], sqlite_sequence = 1\<rparr>"

section \<open>Tag normalization\<close>

lemma split_on_no_sep: "x \<in> set (split_on c s) \<Longrightarrow> c \<notin> set x"
  by (induction s arbitrary: x) (auto split: list.splits if_splits)

lemma split_on_plain: "c \<notin> set x \<Longrightarrow> split_on c x = [x]"
  by (induction x) auto

lemma split_on_append: "c \<notin> set x \<Longrightarrow> split_on c (x @ c # rest) = x # split_on c rest"
  by (induction x) auto

lemma split_on_join:
  "xs \<noteq> [] \<Longrightarrow> \<forall>x\<in>set xs. c \<notin> set x \<Longrightarrow> split_on c (join [c] xs) = xs"
  by (induction "[c]" xs rule: join.induct) (auto simp: split_on_plain split_on_append)

lemma set_strip: "set (strip s) \<subseteq> set s"
  unfolding strip_def lstrip_def rstrip_def
  by (metis set_dropWhileD set_rev subsetI)

lemma rstrip_prefix: "\<exists>w. s = rstrip s @ w"
proof -
  have "rev (rev s) = rev (takeWhile is_space (rev s) @ dropWhile is_space (rev s))"
    by (simp only: takeWhile_dropWhile_id)
  then have "s = rstrip s @ rev (takeWhile is_space (rev s))"
    by (simp only: rev_rev_ident rev_append rstrip_def)
  then show ?thesis ..
qed

lemma rstrip_idem: "rstrip (rstrip s) = rstrip s"
  by (simp add: rstrip_def)

lemma lstrip_head: "lstrip s = [] \<or> \<not> is_space (hd (lstrip s))"
  unfolding lstrip_def using hd_dropWhile [of is_space s] by blast

lemma lstrip_rstrip_fixed:
  assumes "s = [] \<or> \<not> is_space (hd s)"
  shows "lstrip (rstrip s) = rstrip s"
proof (cases "rstrip s")
  case Nil
  then show ?thesis by (simp add: lstrip_def)
next
  case (Cons a as)
  obtain w where w: "s = rstrip s @ w"
    using rstrip_prefix by blast
  from w Cons have "s = a # as @ w" by simp
  then obtain t where "s = a # t" ..
  with assms have "\<not> is_space a" by simp
  with Cons show ?thesis by (simp add: lstrip_def)
qed

lemma strip_idem: "strip (strip s) = strip s"
  by (simp add: strip_def lstrip_rstrip_fixed [OF lstrip_head] rstrip_idem)

lemma normalize_tags_example: "normalize_tags '' a, b,, c '' = ''a,b,c''"
  by (simp add: normalize_tags_def strip_def lstrip_def rstrip_def is_space_def)

text \<open>
  Claim C7. Tag normalization (split on comma, trim each segment, discard the empty
  segments, join with one comma) is idempotent: normalizing a normalized string gives
  the same string, for every input string.
\<close>

theorem normalize_tags_idempotent: "normalize_tags (normalize_tags s) = normalize_tags s"
proof -
  define xs where "xs = map strip (filter (\<lambda>t. strip t \<noteq> []) (split_on (CHR '','') s))"
  have nocomma: "\<forall>x\<in>set xs. CHR '','' \<notin> set x"
    using split_on_no_sep set_strip unfolding xs_def by fastforce
  have stripped: "\<forall>x\<in>set xs. strip x = x \<and> x \<noteq> []"
    unfolding xs_def by (auto simp: strip_idem)
  have n: "normalize_tags s = join '','' xs"
    by (simp add: normalize_tags_def xs_def)
  show ?thesis
  proof (cases "xs = []")
    case True
    then show ?thesis
      unfolding n by (simp add: normalize_tags_def strip_def lstrip_def rstrip_def)
  next
    case False
    then have sp: "split_on (CHR '','') (join '','' xs) = xs"
      using split_on_join nocomma by blast
    have f: "filter (\<lambda>t. strip t \<noteq> []) xs = xs"
      using stripped by (simp add: filter_id_conv)
    have m: "map strip xs = xs"
      using stripped by (simp add: map_idI)
    show ?thesis
      unfolding n by (simp add: normalize_tags_def sp f m)
  qed
qed

section \<open>Search\<close>

lemma like_chars_percent_all: "like_chars ''%'' s"
  by (induction s) auto


lemma like_chars_percent_here: "like_chars ps s \<Longrightarrow> like_chars (CHR ''%'' # ps) s"
  by (cases s) auto








lemma like_any: "like ''%%'' s"
proof -
  have "until_nul ''%%'' = ''%%''"
    by (simp add: until_nul_def)
  moreover have "like_chars ''%%'' (until_nul s)"
    using like_chars_percent_here [OF like_chars_percent_all] by simp
  ultimately show ?thesis
    by (simp only: like_def)
qed

lemma like_any3: "like ''%%%'' s"
proof -
  have "until_nul ''%%%'' = ''%%%''"
    by (simp add: until_nul_def)
  moreover have "like_chars ''%%%'' (until_nul s)"
    using like_chars_percent_here [OF like_chars_percent_here [OF like_chars_percent_all]]
    by simp
  ultimately show ?thesis
    by (simp only: like_def)
qed

lemma search_where_any: "search_where ''%%'' = (\<lambda>r. True)"
  by (rule ext) (simp add: search_where_def like_any)

lemma search_where_any3: "search_where ''%%%'' = (\<lambda>r. True)"
  by (rule ext) (simp add: search_where_def like_any3)

lemma strip_empty: "strip [] = []"
  by (simp add: strip_def lstrip_def rstrip_def)

lemma strip_percent: "strip ''%'' = ''%''"
  by (simp add: strip_def lstrip_def rstrip_def is_space_def)


lemma mset_search_select:
  "mset (search_select d k) = filter_mset (search_where (''%'' @ strip k @ ''%'')) (mset (snippets d))"
  by (simp add: search_select_def order_by_updated_desc_def)

lemma search_select_all:
  assumes "strip k = []"
  shows "mset (search_select d k) = mset (snippets d)"
  by (simp add: mset_search_select assms search_where_any)




lemma db_search_short:
  "db_search d [] = Inr (map summary (search_rows d []))"
  "db_search d ''%'' = Inr (map summary (search_rows d ''%''))"
  by (simp_all add: db_search_def Let_def strip_empty strip_percent utf8_length_def
      like_pattern_limit_def)


lemmas eval_defs = db_search_def search_rows_def search_select_def order_by_updated_desc_def
  two_db_def bin_search_row_def hello_row_def search_where_def strip_def lstrip_def rstrip_def
  summary_def ascii_lower_def is_space_def searched_columns_def like_def until_nul_def
  utf8_length_def like_pattern_limit_def Let_def





text \<open>
  Claim C6. \<open>db_search d ""\<close> returns at most 200 rows; they are the summaries of rows in
  descending order of \<open>updated_at\<close>; and when the table has fewer than 200 rows they are
  exactly the rows of the table, each once.
\<close>

theorem search_empty_keyword:
  "db_search d [] = Inr (map summary (search_rows d []))
   \<and> length (map summary (search_rows d [])) \<le> 200
   \<and> sorted_wrt (\<lambda>x y. updated_at y \<le> updated_at x) (search_rows d [])
   \<and> (length (snippets d) < 200 \<longrightarrow> mset (search_rows d []) = mset (snippets d))"
proof -
  have len: "length (map summary (search_rows d [])) \<le> 200"
    by (simp add: search_rows_def)
  have "sorted (map (\<lambda>r. - int (updated_at r)) (search_select d []))"
    unfolding search_select_def order_by_updated_desc_def Let_def by (rule sorted_sort_key)
  then have "sorted_wrt (\<lambda>x y. updated_at y \<le> updated_at x) (search_select d [])"
    by (simp add: sorted_map)
  then have ord: "sorted_wrt (\<lambda>x y. updated_at y \<le> updated_at x) (search_rows d [])"
    unfolding search_rows_def by (rule sorted_wrt_take)
  have all: "mset (search_select d []) = mset (snippets d)"
    by (rule search_select_all) (rule strip_empty)
  have "length (search_select d []) = length (snippets d)"
    using all by (metis size_mset)
  then have "length (snippets d) < 200 \<longrightarrow> search_rows d [] = search_select d []"
    by (simp add: search_rows_def)
  with all have full: "length (snippets d) < 200 \<longrightarrow> mset (search_rows d []) = mset (snippets d)"
    by simp
  from db_search_short(1) len ord full show ?thesis
    by blast
qed

theorem search_empty_keyword_witness:
  "length (snippets two_db) < 200
   \<and> db_search two_db [] = Inr [summary hello_row, summary bin_search_row]
   \<and> mset (search_rows two_db []) = mset (snippets two_db)"
  using search_empty_keyword [of two_db]
  by (simp add: eval_defs)

lemma search_select_percent: "search_select d ''%'' = search_select d []"
proof -
  have "filter (search_where ''%%%'') (snippets d) = filter (search_where ''%%'') (snippets d)"
    by (simp add: search_where_any search_where_any3)
  then show ?thesis
    by (simp add: search_select_def strip_empty strip_percent)
qed

text \<open>
  Claim C10. The percent sign and the underscore of a keyword are wildcards of \<^verbatim>\<open>LIKE\<close>,
  not literals: the keyword \<open>%\<close> selects what the empty keyword selects, on every table, and
  on a table of two rows, none of whose five texts holds a percent sign or an underscore,
  each of the keywords \<open>%\<close> and \<open>_\<close> selects both rows.
\<close>

theorem search_wildcards:
  "db_search d ''%'' = db_search d []
   \<and> db_search two_db ''%'' = Inr [summary hello_row, summary bin_search_row]
   \<and> db_search two_db ''_'' = Inr [summary hello_row, summary bin_search_row]
   \<and> \<not> list_ex (\<lambda>r. list_ex (\<lambda>f. sublist ''%'' f \<or> sublist ''_'' f) (searched_columns r))
          (snippets two_db)"
proof -
  have a: "db_search d ''%'' = db_search d []"
    by (simp add: db_search_short search_rows_def search_select_percent)
  have b: "db_search two_db ''%'' = Inr [summary hello_row, summary bin_search_row]"
    by (simp add: eval_defs)
  have c: "db_search two_db ''_'' = Inr [summary hello_row, summary bin_search_row]"
    by (simp add: eval_defs)
  have e: "\<not> list_ex (\<lambda>r. list_ex (\<lambda>f. sublist ''%'' f \<or> sublist ''_'' f) (searched_columns r))
          (snippets two_db)"
    by (simp add: eval_defs sublist_code)
  from a b c e show ?thesis by blast
qed

section \<open>The store\<close>

lemma fold_max_ge: "(s::int) \<le> fold max xs s \<and> (\<forall>x\<in>set xs. x \<le> fold max xs s)"
proof (induction xs arbitrary: s)
  case Nil
  then show ?case by simp
next
  case (Cons x xs)
  have "max x s \<le> fold max xs (max x s)"
    using Cons.IH by blast
  moreover have "\<forall>y\<in>set xs. y \<le> fold max xs (max x s)"
    using Cons.IH by blast
  ultimately show ?case by auto
qed

lemma find_snoc:
  "find P (xs @ [r]) = (case find P xs of Some x \<Rightarrow> Some x | None \<Rightarrow> if P r then Some r else None)"
  by (induction xs) auto

lemma row_with_id_fresh:
  assumes "\<forall>x\<in>set (snippets d). row_id x < row_id r"
  shows "row_with_id \<lparr>snippets = snippets d @ [r], sqlite_sequence = q\<rparr> (row_id r) = Some r"
proof -
  have "find (\<lambda>x. row_id x = row_id r) (snippets d) = None"
    using assms by (auto simp: find_None_iff)
  then show ?thesis
    by (simp add: row_with_id_def find_snoc)
qed

lemma db_get_db_insert:
  assumes "db_insert now d t l g s c n = Inr (i, d')"
  shows "db_get d' i = Some (i, t, l, g, s, c, n)"
proof -
  define largest where "largest = fold max (map row_id (snippets d)) (sqlite_sequence d)"
  define r where "r = \<lparr>row_id = largest + 1, title = t, language = l, tags = g,
                    status = s, code = c, notes = Some n, created_at = now, updated_at = now\<rparr>"
  from assms have i: "i = largest + 1"
    and d': "d' = \<lparr>snippets = snippets d @ [r], sqlite_sequence = largest + 1\<rparr>"
    by (auto simp: db_insert_def Let_def largest_def r_def split: if_splits)
  have "\<forall>x\<in>set (snippets d). row_id x \<le> largest"
    using fold_max_ge [of "sqlite_sequence d" "map row_id (snippets d)"]
    by (simp add: largest_def)
  then have "\<forall>x\<in>set (snippets d). row_id x < row_id r"
    by (auto simp: r_def)
  then have "row_with_id d' (row_id r) = Some r"
    unfolding d' by (rule row_with_id_fresh)
  then show ?thesis
    by (simp add: db_get_def i r_def)
qed


section \<open>The editor session\<close>

lemmas session_defs = save_snippet_def refresh_results_def text_get_def normalize_tags_def
  db_insert_def db_update_def set_columns_def db_get_def row_with_id_def max_rowid_def
  draft_app_def blank_app_def required_message_def on_select_def new_snippet_def
  raw_tags_db_def empty_db_def after_refresh_def Let_def

lemma selected_id_refresh_results: "selected_id (snd (refresh_results a d)) = selected_id a"
  by (simp add: refresh_results_def split: sum.splits)

lemma after_refresh_results_no_error_box:
  "fst (after_refresh (ShowInfo x y) (refresh_results a d) d1) \<noteq> ShowError u v"
  by (simp add: after_refresh_def refresh_results_def split: sum.splits)

lemma after_refresh_results_info:
  assumes "after_refresh (ShowInfo x y) (refresh_results a d) d1 = (ShowInfo x y, a', d')"
  shows "a' = snd (refresh_results a d) \<and> d' = d1"
  using assms
  by (auto simp: after_refresh_def refresh_results_def split: sum.splits if_splits)

lemma save_snippet_new:
  assumes "selected_id a = None"
    and "save_snippet now (a, d) = (ShowInfo ''Saved'' ''Snippet saved.'', a', d')"
  shows "\<exists>i. db_insert now d (strip (title_var a)) (strip (lang_var a))
              (normalize_tags (strip (tags_var a))) (strip (status_var a))
              (strip (text_get (code_text a))) (strip (text_get (notes_text a))) = Inr (i, d')
            \<and> a' = snd (refresh_results (a\<lparr>selected_id := Some i\<rparr>) d')"
proof -
  from assms obtain i d1 where ins: "db_insert now d (strip (title_var a)) (strip (lang_var a))
              (normalize_tags (strip (tags_var a))) (strip (status_var a))
              (strip (text_get (code_text a))) (strip (text_get (notes_text a))) = Inr (i, d1)"
    and rest: "after_refresh (ShowInfo ''Saved'' ''Snippet saved.'')
              (refresh_results (a\<lparr>selected_id := Some i\<rparr>) d1) d1
            = (ShowInfo ''Saved'' ''Snippet saved.'', a', d')"
    by (auto simp: save_snippet_def Let_def split: if_splits sum.splits)
  from after_refresh_results_info [OF rest] ins show ?thesis
    by auto
qed

lemma save_snippet_existing:
  assumes "selected_id a = Some i"
    and "save_snippet now (a, d) = (ShowInfo ''Saved'' ''Snippet saved.'', a', d')"
  shows "d' = db_update now d i (strip (title_var a)) (strip (lang_var a))
              (normalize_tags (strip (tags_var a))) (strip (status_var a))
              (strip (text_get (code_text a))) (strip (text_get (notes_text a)))
            \<and> a' = snd (refresh_results a d')"
proof -
  let ?d1 = "db_update now d i (strip (title_var a)) (strip (lang_var a))
              (normalize_tags (strip (tags_var a))) (strip (status_var a))
              (strip (text_get (code_text a))) (strip (text_get (notes_text a)))"
  from assms have "after_refresh (ShowInfo ''Saved'' ''Snippet saved.'')
              (refresh_results a ?d1) ?d1
            = (ShowInfo ''Saved'' ''Snippet saved.'', a', d')"
    by (auto simp: save_snippet_def Let_def split: if_splits)
  from after_refresh_results_info [OF this] show ?thesis
    by auto
qed

text \<open>
  Claim C2, as the code has it. \<open>db_insert\<close> stores the six texts it is given unchanged
  and \<open>db_get\<close> on the id it returns reads them back; the tags are normalized by
  \<open>save_snippet\<close> before the store is called. So the round trip holds through a save: after
  a successful save of a new snippet, \<open>db_get\<close> on the id now selected yields the trimmed
  fields of the form with the tags normalized, and the raw tags \<open>a, b , c\<close> are stored as
  \<open>a,b,c\<close>.
\<close>

theorem save_normalizes_tags:
  "(db_insert now d t l g s c n = Inr (i, d1) \<longrightarrow> db_get d1 i = Some (i, t, l, g, s, c, n))
   \<and> (selected_id a = None
        \<and> save_snippet now (a, d) = (ShowInfo ''Saved'' ''Snippet saved.'', a', d')
      \<longrightarrow> (\<exists>j. selected_id a' = Some j
            \<and> db_get d' j =
                Some (j, strip (title_var a), strip (lang_var a),
                      normalize_tags (strip (tags_var a)), strip (status_var a),
                      strip (text_get (code_text a)), strip (text_get (notes_text a)))))
   \<and> normalize_tags (strip ''a, b , c'') = ''a,b,c''"
proof -
  have store: "db_insert now d t l g s c n = Inr (i, d1) \<longrightarrow> db_get d1 i = Some (i, t, l, g, s, c, n)"
    using db_get_db_insert by blast
  have session: "selected_id a = None
        \<and> save_snippet now (a, d) = (ShowInfo ''Saved'' ''Snippet saved.'', a', d')
      \<longrightarrow> (\<exists>j. selected_id a' = Some j
            \<and> db_get d' j =
                Some (j, strip (title_var a), strip (lang_var a),
                      normalize_tags (strip (tags_var a)), strip (status_var a),
                      strip (text_get (code_text a)), strip (text_get (notes_text a))))"
  proof
    assume h: "selected_id a = None
        \<and> save_snippet now (a, d) = (ShowInfo ''Saved'' ''Snippet saved.'', a', d')"
    from h have h1: "selected_id a = None"
      and h2: "save_snippet now (a, d) = (ShowInfo ''Saved'' ''Snippet saved.'', a', d')"
      by simp_all
    from save_snippet_new [OF h1 h2]
    obtain j where both: "db_insert now d (strip (title_var a)) (strip (lang_var a))
              (normalize_tags (strip (tags_var a))) (strip (status_var a))
              (strip (text_get (code_text a))) (strip (text_get (notes_text a))) = Inr (j, d')
            \<and> a' = snd (refresh_results (a\<lparr>selected_id := Some j\<rparr>) d')" ..
    from both have ins: "db_insert now d (strip (title_var a)) (strip (lang_var a))
              (normalize_tags (strip (tags_var a))) (strip (status_var a))
              (strip (text_get (code_text a))) (strip (text_get (notes_text a))) = Inr (j, d')" ..
    from both have a': "a' = snd (refresh_results (a\<lparr>selected_id := Some j\<rparr>) d')" ..
    have "selected_id a' = Some j"
      by (simp add: a' selected_id_refresh_results)
    with db_get_db_insert [OF ins] show "\<exists>j. selected_id a' = Some j
            \<and> db_get d' j =
                Some (j, strip (title_var a), strip (lang_var a),
                      normalize_tags (strip (tags_var a)), strip (status_var a),
                      strip (text_get (code_text a)), strip (text_get (notes_text a)))"
      by blast
  qed
  have abc: "normalize_tags (strip ''a, b , c'') = ''a,b,c''"
    by (simp add: normalize_tags_def strip_def lstrip_def rstrip_def is_space_def)
  from store session abc show ?thesis by blast
qed


theorem save_normalizes_tags_witness:
  "db_insert 40 two_db ''T'' ''py'' ''a,b,c'' ''draft'' ''x = 1'' [] = Inr (3, three_db)
   \<and> selected_id draft_app = None
   \<and> tags_var draft_app = ''a, b , c''
   \<and> save_snippet 40 (draft_app, two_db) = (ShowInfo ''Saved'' ''Snippet saved.'', saved_app, three_db)
   \<and> selected_id saved_app = Some 3
   \<and> db_get three_db 3 = Some (3, ''T'', ''py'', ''a,b,c'', ''draft'', ''x = 1'', [])"
  using save_normalizes_tags [where now = 40 and d = two_db and t = "''T''" and l = "''py''"
      and g = "''a,b,c''" and s = "''draft''" and c = "''x = 1''" and n = "[]" and i = 3
      and ?d1.0 = three_db and a = draft_app and a' = saved_app and d' = three_db]
  by (simp add: session_defs eval_defs three_db_def saved_app_def)

text \<open>
  The statement of C2 on the store alone fails: \<open>db_insert\<close> writes the tags it is given,
  and \<open>db_get\<close> reads them back with their blanks.
\<close>

theorem insert_keeps_raw_tags:
  "db_insert 40 empty_db ''T'' ''py'' ''a, b , c'' ''draft'' ''x = 1'' [] = Inr (1, raw_tags_db)
   \<and> db_get raw_tags_db 1 = Some (1, ''T'', ''py'', ''a, b , c'', ''draft'', ''x = 1'', [])"
  by (simp add: session_defs)

text \<open>
  Claim C3. When the title, the language, the tags or the code is empty after trimming,
  \<open>save_snippet\<close> shows the error box and returns with the window and the store as they
  were: no insert and no update. When all four are non-empty it does not show it, whatever
  the notes are, so also for empty notes.
\<close>

theorem save_requires_fields:
  "(strip (title_var a) = [] \<or> strip (lang_var a) = [] \<or> strip (tags_var a) = []
      \<or> strip (text_get (code_text a)) = []
     \<longrightarrow> save_snippet now (a, d) = (ShowError ''Error'' required_message, a, d))
   \<and> (strip (title_var a) \<noteq> [] \<and> strip (lang_var a) \<noteq> [] \<and> strip (tags_var a) \<noteq> []
      \<and> strip (text_get (code_text a)) \<noteq> []
     \<longrightarrow> fst (save_snippet now (a, d)) \<noteq> ShowError ''Error'' required_message)"
  by (simp add: save_snippet_def Let_def after_refresh_results_no_error_box
      split: option.splits sum.splits)

theorem save_requires_fields_witness:
  "strip (tags_var (draft_app\<lparr>tags_var := '' ''\<rparr>)) = []
   \<and> save_snippet 40 (draft_app\<lparr>tags_var := '' ''\<rparr>, two_db)
       = (ShowError ''Error'' required_message, draft_app\<lparr>tags_var := '' ''\<rparr>, two_db)
   \<and> strip (text_get (notes_text draft_app)) = []
   \<and> fst (save_snippet 40 (draft_app, two_db)) \<noteq> ShowError ''Error'' required_message"
  using save_requires_fields [of "draft_app\<lparr>tags_var := '' ''\<rparr>" 40 two_db]
    save_requires_fields [of draft_app 40 two_db]
  by (simp add: draft_app_def blank_app_def text_get_def strip_def lstrip_def rstrip_def
      is_space_def)

text \<open>
  Claim C4. A save that succeeds (it ends with the box \<open>Snippet saved.\<close>) with no snippet
  selected is a \<open>db_insert\<close> and selects the id that \<open>db_insert\<close> returned; with the
  snippet \<open>i\<close> selected it is a \<open>db_update\<close> of \<open>i\<close> and \<open>i\<close> stays selected.
\<close>

theorem save_inserts_or_updates:
  assumes "save_snippet now (a, d) = (ShowInfo ''Saved'' ''Snippet saved.'', a', d')"
  shows "(selected_id a = None \<longrightarrow>
           (\<exists>i. db_insert now d (strip (title_var a)) (strip (lang_var a))
                  (normalize_tags (strip (tags_var a))) (strip (status_var a))
                  (strip (text_get (code_text a))) (strip (text_get (notes_text a)))
                = Inr (i, d')
              \<and> selected_id a' = Some i))
       \<and> (\<forall>i. selected_id a = Some i \<longrightarrow>
            d' = db_update now d i (strip (title_var a)) (strip (lang_var a))
                   (normalize_tags (strip (tags_var a))) (strip (status_var a))
                   (strip (text_get (code_text a))) (strip (text_get (notes_text a)))
            \<and> selected_id a' = Some i)"
proof (intro conjI impI allI)
  assume none: "selected_id a = None"
  from save_snippet_new [OF none assms]
  obtain i where both: "db_insert now d (strip (title_var a)) (strip (lang_var a))
              (normalize_tags (strip (tags_var a))) (strip (status_var a))
              (strip (text_get (code_text a))) (strip (text_get (notes_text a))) = Inr (i, d')
            \<and> a' = snd (refresh_results (a\<lparr>selected_id := Some i\<rparr>) d')" ..
  then have "selected_id a' = Some i"
    by (simp add: selected_id_refresh_results)
  with both show "\<exists>i. db_insert now d (strip (title_var a)) (strip (lang_var a))
                  (normalize_tags (strip (tags_var a))) (strip (status_var a))
                  (strip (text_get (code_text a))) (strip (text_get (notes_text a)))
                = Inr (i, d')
              \<and> selected_id a' = Some i"
    by blast
next
  fix i
  assume some: "selected_id a = Some i"
  from save_snippet_existing [OF some assms]
  show "d' = db_update now d i (strip (title_var a)) (strip (lang_var a))
                   (normalize_tags (strip (tags_var a))) (strip (status_var a))
                   (strip (text_get (code_text a))) (strip (text_get (notes_text a)))"
    by simp
  from save_snippet_existing [OF some assms] some
  show "selected_id a' = Some i"
    by (simp add: selected_id_refresh_results)
qed


theorem save_inserts_or_updates_witness:
  "save_snippet 40 (draft_app, two_db) = (ShowInfo ''Saved'' ''Snippet saved.'', saved_app, three_db)
   \<and> selected_id draft_app = None
   \<and> db_insert 40 two_db ''T'' ''py'' ''a,b,c'' ''draft'' ''x = 1'' [] = Inr (3, three_db)
   \<and> selected_id saved_app = Some 3
   \<and> save_snippet 40 (draft_app\<lparr>selected_id := Some 1\<rparr>, two_db)
       = (ShowInfo ''Saved'' ''Snippet saved.'', edited_app, edited_db)
   \<and> edited_db = db_update 40 two_db 1 ''T'' ''py'' ''a,b,c'' ''draft'' ''x = 1'' []
   \<and> selected_id edited_app = Some 1"
  using save_inserts_or_updates [of 40 draft_app two_db saved_app three_db]
    save_inserts_or_updates [of 40 "draft_app\<lparr>selected_id := Some 1\<rparr>" two_db edited_app edited_db]
  by (simp add: session_defs eval_defs three_db_def saved_app_def edited_db_def edited_app_def)

section \<open>Update\<close>

lemma find_map_same:
  assumes "\<And>x. P (f x) = P x"
  shows "find P (map f xs) = map_option f (find P xs)"
  by (induction xs) (auto simp: assms)

lemma find_map_other:
  assumes "\<And>x. P x \<Longrightarrow> f x = x" and "\<And>x. P (f x) = P x"
  shows "find P (map f xs) = find P xs"
  by (induction xs) (auto simp: assms)

lemma row_id_set_columns: "row_id (set_columns now t l g s c n r) = row_id r"
  by (simp add: set_columns_def)

lemma created_at_set_columns: "created_at (set_columns now t l g s c n r) = created_at r"
  by (simp add: set_columns_def)

lemma row_with_id_db_update_same:
  "row_with_id (db_update now d i t l g s c n) i
     = map_option (set_columns now t l g s c n) (row_with_id d i)"
proof -
  let ?f = "\<lambda>r. if row_id r = i then set_columns now t l g s c n r else r"
  have "find (\<lambda>r. row_id r = i) (map ?f (snippets d))
          = map_option ?f (find (\<lambda>r. row_id r = i) (snippets d))"
    by (rule find_map_same) (simp add: row_id_set_columns)
  also have "\<dots> = map_option (set_columns now t l g s c n) (find (\<lambda>r. row_id r = i) (snippets d))"
    by (cases "find (\<lambda>r. row_id r = i) (snippets d)") (auto dest: find_Some_iff [THEN iffD1])
  finally show ?thesis
    by (simp add: row_with_id_def db_update_def)
qed

lemma row_with_id_db_update_other:
  assumes "j \<noteq> i"
  shows "row_with_id (db_update now d i t l g s c n) j = row_with_id d j"
proof -
  let ?f = "\<lambda>r. if row_id r = i then set_columns now t l g s c n r else r"
  have "find (\<lambda>r. row_id r = j) (map ?f (snippets d)) = find (\<lambda>r. row_id r = j) (snippets d)"
    by (rule find_map_other) (use assms in \<open>auto simp: row_id_set_columns\<close>)
  then show ?thesis
    by (simp add: row_with_id_def db_update_def)
qed

text \<open>
  Claim C5, as the code has it. For a row \<open>r\<close> that the store holds under the id \<open>i\<close>,
  \<open>db_update\<close> replaces the title, language, tags, status, code and notes by its
  arguments and sets \<open>updated_at\<close> to the clock of the update; the id and \<open>created_at\<close>
  stay, for this row and for every row; the rows with another id and the sequence of ids
  are as before. The new \<open>updated_at\<close> is the clock and nothing else: it is not below the
  old one exactly when the clock of the update is not earlier than the stored time, which
  the code does not test.
\<close>

theorem db_update_replaces_editable_fields:
  assumes "row_with_id d i = Some r"
  shows "\<exists>r'. row_with_id (db_update now d i t l g s c n) i = Some r'
            \<and> r' = r\<lparr>title := t, language := l, tags := g, status := s, code := c,
                       notes := Some n, updated_at := now\<rparr>
            \<and> row_id r' = row_id r \<and> created_at r' = created_at r
            \<and> updated_at r' = now
            \<and> (updated_at r \<le> updated_at r' \<longleftrightarrow> updated_at r \<le> now)
            \<and> (\<forall>j. j \<noteq> i \<longrightarrow> row_with_id (db_update now d i t l g s c n) j = row_with_id d j)
            \<and> map row_id (snippets (db_update now d i t l g s c n)) = map row_id (snippets d)
            \<and> map created_at (snippets (db_update now d i t l g s c n))
                = map created_at (snippets d)
            \<and> sqlite_sequence (db_update now d i t l g s c n) = sqlite_sequence d"
proof -
  have same: "row_with_id (db_update now d i t l g s c n) i
      = Some (r\<lparr>title := t, language := l, tags := g, status := s, code := c,
                notes := Some n, updated_at := now\<rparr>)"
    by (simp add: row_with_id_db_update_same assms set_columns_def)
  have others: "\<forall>j. j \<noteq> i \<longrightarrow> row_with_id (db_update now d i t l g s c n) j = row_with_id d j"
    by (simp add: row_with_id_db_update_other)
  have ids: "map row_id (snippets (db_update now d i t l g s c n)) = map row_id (snippets d)"
    by (simp add: db_update_def row_id_set_columns)
  have created: "map created_at (snippets (db_update now d i t l g s c n))
      = map created_at (snippets d)"
    by (simp add: db_update_def created_at_set_columns)
  have seq: "sqlite_sequence (db_update now d i t l g s c n) = sqlite_sequence d"
    by (simp add: db_update_def)
  from same others ids created seq show ?thesis
    by simp
qed

theorem db_update_replaces_editable_fields_witness:
  "row_with_id two_db 1 = Some bin_search_row
   \<and> row_with_id (db_update 40 two_db 1 ''T'' ''py'' ''a,b,c'' ''draft'' ''x = 1'' []) 1
       = Some \<lparr>row_id = 1, title = ''T'', language = ''py'', tags = ''a,b,c'',
               status = ''draft'', code = ''x = 1'', notes = Some [],
               created_at = 10, updated_at = 40\<rparr>
   \<and> updated_at bin_search_row \<le> 40
   \<and> row_with_id (db_update 40 two_db 1 ''T'' ''py'' ''a,b,c'' ''draft'' ''x = 1'' []) 2
       = Some hello_row"
  using db_update_replaces_editable_fields
    [of two_db 1 bin_search_row 40 "''T''" "''py''" "''a,b,c''" "''draft''" "''x = 1''" "[]"]
  by (simp add: session_defs eval_defs)

text \<open>
  The statement of C5 that the new \<open>updated_at\<close> is never below the old one fails: on
  \<open>stamped_db\<close> the row was last written at time 50, the update runs at time 40, and the
  time of the row goes from 50 to 40.
\<close>

theorem db_update_can_lower_updated_at:
  "map updated_at (snippets stamped_db) = [50]
   \<and> map updated_at (snippets (db_update 40 stamped_db 1 ''T'' ''py'' ''a,b,c'' ''draft''
        ''x = 1'' [])) = [40]
   \<and> map created_at (snippets (db_update 40 stamped_db 1 ''T'' ''py'' ''a,b,c'' ''draft''
        ''x = 1'' [])) = map created_at (snippets stamped_db)"
  by (simp add: stamped_db_def db_update_def set_columns_def bin_search_row_def)

section \<open>Selecting and clearing\<close>

text \<open>
  Claim C8, as the code has it. When the id of the selected item has no row in the store,
  \<open>on_select\<close> fails with \<^verbatim>\<open>TypeError\<close>: \<open>db_get\<close> returns \<^verbatim>\<open>None\<close>, the first
  assignment of the callback subscripts it, and the exception leaves the callback to its
  caller. The module has no error of its own for an id that is not found. Nothing is
  loaded: the window is as it was.
\<close>

theorem on_select_missing_id:
  assumes "db_get d snippet_id = None"
  shows "on_select (a, d) (snippet_id # rest) = (Raised TypeError, a)"
  using assms by (simp add: on_select_def)

theorem on_select_missing_id_witness:
  "db_get two_db 7 = None \<and> on_select (draft_app, two_db) [7] = (Raised TypeError, draft_app)"
  using on_select_missing_id [of two_db 7 draft_app "[]"]
  by (simp add: session_defs eval_defs)

text \<open>
  The statement of C8 that the failure is a not-found error fails: row 3 is in the result
  list of \<open>saved_app\<close>, it is deleted from the store, and selecting it raises the
  \<^verbatim>\<open>TypeError\<close> of subscripting \<^verbatim>\<open>None\<close>.
\<close>

theorem on_select_deleted_row_raises_type_error:
  "(3, ''T'', ''py'', ''a,b,c'', ''draft'') \<in> set (results saved_app)
   \<and> db_get (db_delete three_db 3) 3 = None
   \<and> on_select (saved_app, db_delete three_db 3) [3] = (Raised TypeError, saved_app)"
  by (simp add: on_select_def db_get_def row_with_id_def db_delete_def three_db_def
      saved_app_def bin_search_row_def hello_row_def)

text \<open>
  Claim C9, as the code has it. From any state \<open>new_snippet\<close> leaves no snippet selected
  and empties the title, the tags, the code and the notes; the language is reset to \<open>py\<close>
  and the status to \<open>draft\<close>, their values in a fresh window. The search text and the
  result list stay.
\<close>

theorem new_snippet_resets:
  "selected_id (new_snippet a) = None
   \<and> title_var (new_snippet a) = [] \<and> tags_var (new_snippet a) = []
   \<and> code_text (new_snippet a) = [] \<and> notes_text (new_snippet a) = []
   \<and> lang_var (new_snippet a) = ''py'' \<and> status_var (new_snippet a) = ''draft''
   \<and> search_var (new_snippet a) = search_var a \<and> results (new_snippet a) = results a"
  by (simp add: new_snippet_def)

text \<open>
  The statement of C9 with every field empty fails on the two fields that have a default:
  after \<open>new_snippet\<close> the language is \<open>py\<close> and the status is \<open>draft\<close>.
\<close>

theorem new_snippet_keeps_defaults:
  "lang_var (new_snippet saved_app) = ''py'' \<and> status_var (new_snippet saved_app) = ''draft''"
  by (simp add: new_snippet_def)

end
